theory Spec2Isabelle
  imports Complex_Main "HOL-Library.Multiset"
begin

section \<open>JavaScript values\<close>

text \<open>
  The functions of \<^verbatim>\<open>index.js\<close> work on JSON-decoded payloads. A field of a payload
  object that may be absent is an \<open>option\<close> (\<open>None\<close> is JavaScript's
  \<^verbatim>\<open>undefined\<close>). Strings are ASCII strings. A number is a finite value, kept as the
  rational it denotes, or one of the three non-finite doubles.
\<close>

datatype jsnum = Fin rat | NaN | PosInf | NegInf

datatype jsval = JUndefined | JNull | JBool bool | JNum jsnum | JStr string

datatype error = TypeError

text \<open>\<^verbatim>\<open>Number.isFinite(v)\<close>: true only for a value of type number that is finite.\<close>

fun isFinite :: "jsval \<Rightarrow> bool" where
  "isFinite (JNum (Fin r)) = True"
| "isFinite v = False"

text \<open>\<^verbatim>\<open>a ?? b\<close>: the right operand replaces \<^verbatim>\<open>null\<close> and \<^verbatim>\<open>undefined\<close> only.\<close>

fun nullish :: "jsval \<Rightarrow> jsval \<Rightarrow> jsval" where
  "nullish JUndefined b = b"
| "nullish JNull b = b"
| "nullish a b = a"

text \<open>
  Truthiness of an optional string, and \<^verbatim>\<open>a || b\<close> on optional strings: the left
  operand when it is a non-empty string, the right operand otherwise.
\<close>

fun truthy :: "string option \<Rightarrow> bool" where
  "truthy None = False"
| "truthy (Some s) = (s \<noteq> [])"

definition or_else :: "string option \<Rightarrow> string option \<Rightarrow> string option" where
  "or_else a b = (if truthy a then a else b)"

text \<open>
  An optional string used as a property key or inside a template literal is converted with
  \<^verbatim>\<open>String(...)\<close>: an absent one reads \<^verbatim>\<open>"undefined"\<close>.
\<close>

fun toString :: "string option \<Rightarrow> string" where
  "toString None = ''undefined''"
| "toString (Some s) = s"

text \<open>
  The handlers use plain objects (\<^verbatim>\<open>{}\<close>) as dictionaries. Such an object is the map
  of its own properties, and reading a key it does not own falls through to
  \<^verbatim>\<open>Object.prototype\<close>, whose members are the built-in ones below: eleven functions and
  the accessor \<^verbatim>\<open>__proto__\<close>, all truthy when read. \<^verbatim>\<open>Object.prototype\<close> is taken
  as it is when the process starts; where a loop writes into it, the definition says what
  becomes of it.
\<close>

definition object_prototype_members :: "string list" where
  "object_prototype_members =
     [''constructor'', ''__defineGetter__'', ''__defineSetter__'', ''hasOwnProperty'',
      ''__lookupGetter__'', ''__lookupSetter__'', ''isPrototypeOf'', ''propertyIsEnumerable'',
      ''toString'', ''valueOf'', ''__proto__'', ''toLocaleString'']"

definition inherited :: "string \<Rightarrow> bool" where
  "inherited k = (k \<in> set object_prototype_members)"

section \<open>Name normalizer\<close>

text \<open>
  The source's \<^verbatim>\<open>norm\<close>:
  \<^verbatim>\<open>
  function norm(s) {
    return String(s || '')
      .toLowerCase()
      .replace(/&/g, 'and')
      .replace(/[^a-z0-9]/g, '');
  }
  \<close>
\<close>

definition is_upper :: "char \<Rightarrow> bool" where
  "is_upper c = (let n = (of_char c :: nat) in 65 \<le> n \<and> n \<le> 90)"

definition lower_char :: "char \<Rightarrow> char" where
  "lower_char c = (if is_upper c then char_of ((of_char c :: nat) + 32) else c)"

definition toLowerCase :: "string \<Rightarrow> string" where
  "toLowerCase s = map lower_char s"

text \<open>The character class \<^verbatim>\<open>[a-z0-9]\<close>.\<close>

definition is_key_char :: "char \<Rightarrow> bool" where
  "is_key_char c =
     (let n = (of_char c :: nat) in (97 \<le> n \<and> n \<le> 122) \<or> (48 \<le> n \<and> n \<le> 57))"

definition norm_name :: "string option \<Rightarrow> string" where
  "norm_name s = filter is_key_char
     (concat (map (\<lambda>c. if c = CHR ''&'' then ''and'' else [c])
        (toLowerCase (case or_else s (Some []) of None \<Rightarrow> [] | Some x \<Rightarrow> x))))"

section \<open>Team directory and logo resolver\<close>

text \<open>The field \<^verbatim>\<open>abbreviation\<close> of a team is \<open>abbrev\<close>.\<close>

record teamMeta =
  school :: "string option"
  abbrev :: "string option"
  alternateNames :: "string list option"
  logos :: "string list option"
  mascot :: "string option"

record entry =
  entry_school :: "string option"
  entry_abbreviation :: "string option"
  entry_alternateNames :: "string list"
  entry_logo :: "string option"

record directory =
  bySchool :: "string \<rightharpoonup> entry"
  byAbbr :: "string \<rightharpoonup> entry"
  byAlt :: "string \<rightharpoonup> entry"

text \<open>
  \<^verbatim>\<open>Array.isArray(t.logos) && t.logos.length ? t.logos[0] : null\<close>; \<open>None\<close> is
  \<^verbatim>\<open>null\<close> here.
\<close>

definition primaryLogo :: "teamMeta \<Rightarrow> string option" where
  "primaryLogo t = (case logos t of None \<Rightarrow> None | Some [] \<Rightarrow> None | Some (l # ls) \<Rightarrow> Some l)"

definition mk_entry :: "teamMeta \<Rightarrow> entry" where
  "mk_entry t = \<lparr> entry_school = school t, entry_abbreviation = abbrev t,
     entry_alternateNames = (case alternateNames t of None \<Rightarrow> [] | Some as \<Rightarrow> as),
     entry_logo = primaryLogo t \<rparr>"

definition empty_directory :: directory where
  "empty_directory = \<lparr> bySchool = Map.empty, byAbbr = Map.empty, byAlt = Map.empty \<rparr>"

text \<open>The body of the first \<^verbatim>\<open>teamsMeta.forEach\<close> of \<^verbatim>\<open>buildTeamLogosMap\<close>.\<close>

definition index_team :: "teamMeta \<Rightarrow> directory \<Rightarrow> directory" where
  "index_team t d =
     (let e = mk_entry t;
          d1 = (if truthy (school t) then d\<lparr>bySchool := (bySchool d)(norm_name (school t) \<mapsto> e)\<rparr> else d);
          d2 = (if truthy (abbrev t)
                then d1\<lparr>byAbbr := (byAbbr d1)(norm_name (abbrev t) \<mapsto> e)\<rparr> else d1);
          d3 = fold (\<lambda>a x. x\<lparr>byAlt := (byAlt x)(norm_name (Some a) \<mapsto> e)\<rparr>) (entry_alternateNames e) d2
      in if truthy (mascot t)
         then d3\<lparr>byAlt := (byAlt d3)(norm_name (Some (toString (school t) @ '' '' @ toString (mascot t))) \<mapsto> e)\<rparr>
         else d3)"

definition build_directory :: "teamMeta list \<Rightarrow> directory" where
  "build_directory teamsMeta = fold index_team teamsMeta empty_directory"

text \<open>
  \<^verbatim>\<open>name.replace(/\s*\([^)]*\)\s*/g, '')\<close>. \<open>match_paren s\<close> matches the pattern at
  the start of \<open>s\<close> and returns what follows the match. Every quantifier of the pattern
  is greedy and is followed by a character outside its class, so backtracking finds no
  other match.
\<close>

definition is_space :: "char \<Rightarrow> bool" where
  "is_space c = (let n = (of_char c :: nat) in (9 \<le> n \<and> n \<le> 13) \<or> n = 32)"

definition match_paren :: "string \<Rightarrow> string option" where
  "match_paren s =
     (case dropWhile is_space s of
        [] \<Rightarrow> None
      | c # s2 \<Rightarrow>
          if c = CHR ''('' then
            (case dropWhile (\<lambda>x. x \<noteq> CHR '')'') s2 of
               [] \<Rightarrow> None
             | x # s4 \<Rightarrow> Some (dropWhile is_space s4))
          else None)"

lemma match_paren_shorter: "match_paren s = Some r \<Longrightarrow> length r < length s"
proof -
  assume m: "match_paren s = Some r"
  from m obtain c s2 where a: "dropWhile is_space s = c # s2"
    by (auto simp: match_paren_def split: list.splits)
  from m a obtain x s4
    where b: "dropWhile (\<lambda>x. x \<noteq> CHR '')'') s2 = x # s4" and r: "r = dropWhile is_space s4"
    by (auto simp: match_paren_def split: list.splits if_splits)
  have "length (dropWhile is_space s) \<le> length s"
    by (rule length_dropWhile_le)
  then have 1: "length s2 < length s" using a by simp
  have "length (dropWhile (\<lambda>x. x \<noteq> CHR '')'') s2) \<le> length s2"
    by (rule length_dropWhile_le)
  then have 2: "length s4 < length s2" using b by simp
  have 3: "length r \<le> length s4" unfolding r by (rule length_dropWhile_le)
  from 1 2 3 show ?thesis by simp
qed

function strip_parens :: "string \<Rightarrow> string" where
  "strip_parens [] = []"
| "strip_parens (c # cs) =
     (case match_paren (c # cs) of
        Some r \<Rightarrow> strip_parens r
      | None \<Rightarrow> c # strip_parens cs)"
  by pat_completeness auto
termination
  by (relation "measure length") (auto dest: match_paren_shorter)

text \<open>
  The second loop of \<^verbatim>\<open>buildTeamLogosMap\<close>. The entries stored in the three indexes are
  objects, hence truthy, so \<^verbatim>\<open>||\<close> moves on exactly when a lookup finds nothing.
  \<^verbatim>\<open>name.replace\<close> is reached after the first two lookups have missed; it throws a
  \<^verbatim>\<open>TypeError\<close> when the name is \<^verbatim>\<open>undefined\<close>.
\<close>

definition hit :: "directory \<Rightarrow> string option \<Rightarrow> error + entry option" where
  "hit d name =
     (let k = norm_name name in
      case bySchool d k of
        Some e \<Rightarrow> Inr (Some e)
      | None \<Rightarrow>
         (case byAlt d k of
            Some e \<Rightarrow> Inr (Some e)
          | None \<Rightarrow>
             (case name of
                None \<Rightarrow> Inl TypeError
              | Some n \<Rightarrow>
                 (case bySchool d (norm_name (Some (strip_parens n))) of
                    Some e \<Rightarrow> Inr (Some e)
                  | None \<Rightarrow> Inr (byAbbr d k)))))"

text \<open>\<^verbatim>\<open>hit && hit.logo ? hit.logo : null\<close>\<close>

definition logo_of_hit :: "entry option \<Rightarrow> string option" where
  "logo_of_hit h =
     (case h of None \<Rightarrow> None
      | Some e \<Rightarrow> if truthy (entry_logo e) then entry_logo e else None)"

definition resolveLogo :: "directory \<Rightarrow> string option \<Rightarrow> error + string option" where
  "resolveLogo d name = (case hit d name of Inl x \<Rightarrow> Inl x | Inr h \<Rightarrow> Inr (logo_of_hit h))"

text \<open>
  The object \<^verbatim>\<open>teamLogos\<close>: its own properties, where a key holding \<^verbatim>\<open>null\<close>
  maps to \<open>Some None\<close> and a key holding a logo to \<open>Some (Some url)\<close>, and whether it
  still has \<^verbatim>\<open>Object.prototype\<close> as its prototype.
\<close>

type_synonym logo_map = "string \<rightharpoonup> string option"

record logo_object =
  props :: logo_map
  has_prototype :: bool

text \<open>\<^verbatim>\<open>const teamLogos = {};\<close>\<close>

definition empty_object :: logo_object where
  "empty_object = \<lparr> props = Map.empty, has_prototype = True \<rparr>"

text \<open>
  \<^verbatim>\<open>teamLogos[k] = v\<close>. The key \<^verbatim>\<open>__proto__\<close> is the inherited accessor as long as
  the object has its prototype: assigning \<^verbatim>\<open>null\<close> removes the prototype, assigning a
  string does nothing, and no own property is created. Every other assignment sets an own
  property.
\<close>

definition set_logo :: "string \<Rightarrow> string option \<Rightarrow> logo_object \<Rightarrow> logo_object" where
  "set_logo k v obj =
     (if k = ''__proto__'' \<and> has_prototype obj
      then (case v of None \<Rightarrow> obj\<lparr> has_prototype := False \<rparr> | Some l \<Rightarrow> obj)
      else obj\<lparr> props := (props obj)(k \<mapsto> v) \<rparr>)"

fun resolve_names :: "directory \<Rightarrow> string option list \<Rightarrow> logo_object \<Rightarrow> error + logo_object" where
  "resolve_names d [] obj = Inr obj"
| "resolve_names d (name # names) obj =
     (case resolveLogo d name of
        Inl x \<Rightarrow> Inl x
      | Inr l \<Rightarrow> resolve_names d names (set_logo (toString name) l obj))"

text \<open>
  The supplementary pass:
  \<^verbatim>\<open>if (t.school && !teamLogos[t.school]) teamLogos[t.school] = primaryLogo;\<close>
  An own property is truthy when it holds a non-empty string (\<open>has_logo\<close>); a key the
  object does not own reads as the inherited member, which is truthy, when there is one.
\<close>

fun has_logo :: "string option option \<Rightarrow> bool" where
  "has_logo (Some l) = truthy l"
| "has_logo None = False"

definition logo_truthy :: "logo_object \<Rightarrow> string \<Rightarrow> bool" where
  "logo_truthy obj k =
     (case props obj k of
        Some v \<Rightarrow> truthy v
      | None \<Rightarrow> has_prototype obj \<and> inherited k)"

definition add_school :: "teamMeta \<Rightarrow> logo_object \<Rightarrow> logo_object" where
  "add_school t obj =
     (if truthy (school t) \<and> \<not> logo_truthy obj (toString (school t))
      then set_logo (toString (school t)) (primaryLogo t) obj else obj)"

definition supplementary :: "teamMeta list \<Rightarrow> logo_object \<Rightarrow> logo_object" where
  "supplementary teamsMeta obj = fold add_school teamsMeta obj"

definition buildTeamLogosMap :: "string option list \<Rightarrow> teamMeta list \<Rightarrow> error + logo_object" where
  "buildTeamLogosMap fbsTeams teamsMeta =
     (case resolve_names (build_directory teamsMeta) fbsTeams empty_object of
        Inl x \<Rightarrow> Inl x
      | Inr obj \<Rightarrow> Inr (supplementary teamsMeta obj))"

text \<open>\<^verbatim>\<open>teamLogos[k]\<close> among the own properties of the result, absent after an error.\<close>

definition logo_at :: "error + logo_object \<Rightarrow> string \<Rightarrow> string option option" where
  "logo_at r k = (case r of Inl x \<Rightarrow> None | Inr obj \<Rightarrow> props obj k)"

section \<open>Game record aggregator\<close>


























section \<open>Statistics averager\<close>

text \<open>
  A row of the season statistics payload and one of its stat entries. The fields
  \<^verbatim>\<open>statName\<close>, \<^verbatim>\<open>category\<close>, \<^verbatim>\<open>name\<close>, \<^verbatim>\<open>value\<close>, \<^verbatim>\<open>stat\<close> and
  \<^verbatim>\<open>statValue\<close> of an entry carry the prefix \<open>stat_\<close>, the fields \<^verbatim>\<open>team\<close>,
  \<^verbatim>\<open>school\<close>, \<^verbatim>\<open>teamName\<close> and \<^verbatim>\<open>stats\<close> of a row the prefix \<open>row_\<close>.
  \<^verbatim>\<open>row_stats = None\<close> is a \<^verbatim>\<open>stats\<close> field that is not an array.
\<close>

record stat =
  stat_statName :: "string option"
  stat_category :: "string option"
  stat_name :: "string option"
  stat_value :: jsval
  stat_stat :: jsval
  stat_statValue :: jsval

record statRow =
  row_team :: "string option"
  row_school :: "string option"
  row_teamName :: "string option"
  row_stats :: "stat list option"

text \<open>
  \<^verbatim>\<open>Number(v)\<close>. The conversion of a string to a number is the runtime's
  \<^verbatim>\<open>StringToNumber\<close>, taken as the parameter \<open>p\<close>.
\<close>

fun toNumber :: "(string \<Rightarrow> jsnum) \<Rightarrow> jsval \<Rightarrow> jsnum" where
  "toNumber p JUndefined = NaN"
| "toNumber p JNull = Fin 0"
| "toNumber p (JBool b) = Fin (if b then 1 else 0)"
| "toNumber p (JNum x) = x"
| "toNumber p (JStr s) = p s"

text \<open>\<^verbatim>\<open>new Set(teamsMeta.map(t => norm(t.school)))\<close>\<close>

definition fbsSet :: "teamMeta list \<Rightarrow> string set" where
  "fbsSet teamsMeta = set (map (\<lambda>t. norm_name (school t)) teamsMeta)"

text \<open>\<^verbatim>\<open>const team = row.team || row.school || row.teamName;\<close>\<close>

definition team_of :: "statRow \<Rightarrow> string option" where
  "team_of row = or_else (or_else (row_team row) (row_school row)) (row_teamName row)"

text \<open>\<^verbatim>\<open>Array.isArray(row.stats) ? row.stats : []\<close>\<close>

definition stats_of :: "statRow \<Rightarrow> stat list" where
  "stats_of row = (case row_stats row of Some ss \<Rightarrow> ss | None \<Rightarrow> [])"

text \<open>
  \<^verbatim>\<open>const name = s.statName || s.category || s.name;\<close> and
  \<^verbatim>\<open>const val = Number(s.value ?? s.stat ?? s.statValue);\<close>
\<close>

definition stat_key :: "stat \<Rightarrow> string option" where
  "stat_key s = or_else (or_else (stat_statName s) (stat_category s)) (stat_name s)"

definition stat_val :: "(string \<Rightarrow> jsnum) \<Rightarrow> stat \<Rightarrow> jsnum" where
  "stat_val p s = toNumber p (nullish (nullish (stat_value s) (stat_stat s)) (stat_statValue s))"

text \<open>
  \<^verbatim>\<open>const gp = Math.max(1, completedCounts[key] || 0);\<close>
  \<open>cc\<close> holds the own properties of \<^verbatim>\<open>completedCounts\<close>, which are counts. A key it
  does not own reads as the inherited member when it names one, and the maximum of 1 and a
  built-in function is \<^verbatim>\<open>NaN\<close> (\<open>None\<close>).
\<close>

definition gp :: "(string \<rightharpoonup> nat) \<Rightarrow> string \<Rightarrow> nat option" where
  "gp cc key =
     (case cc key of
        Some c \<Rightarrow> Some (max 1 c)
      | None \<Rightarrow> if inherited key then None else Some 1)"

text \<open>
  \<^verbatim>\<open>val / gp\<close> for a finite \<open>val\<close>. The division of a finite double by a count is
  the runtime's; it is the parameter \<open>fdiv\<close>, and its rounding is left open. Dividing by
  \<^verbatim>\<open>NaN\<close> gives \<^verbatim>\<open>NaN\<close>.
\<close>

definition quotient :: "(rat \<Rightarrow> nat \<Rightarrow> rat) \<Rightarrow> rat \<Rightarrow> nat option \<Rightarrow> jsnum" where
  "quotient fdiv v g = (case g of Some n \<Rightarrow> Fin (fdiv v n) | None \<Rightarrow> NaN)"

text \<open>
  \<^verbatim>\<open>const acc = (rowsByTeam[team] ||= {});\<close> The accumulator is the team's own one when
  there is one (\<open>Row\<close>). Otherwise the key reads as the inherited member when it names
  one, and nothing is assigned: under the name of a built-in function the accumulator is
  that function (\<open>Elsewhere\<close>), on which a write changes no property of
  \<^verbatim>\<open>rowsByTeam\<close> and none of \<^verbatim>\<open>Object.prototype\<close>; under \<^verbatim>\<open>__proto__\<close> it is
  \<^verbatim>\<open>Object.prototype\<close> itself, and the loop goes on to write the team's averages into
  the prototype of every object of the process. There the model ends: the result is
  \<open>None\<close>. In every other case a new accumulator becomes the team's own.
\<close>

type_synonym averages = "string \<rightharpoonup> jsnum"

datatype target = Row string | Elsewhere

definition select_acc ::
  "string \<Rightarrow> (string \<rightharpoonup> averages) \<Rightarrow> (target \<times> (string \<rightharpoonup> averages)) option" where
  "select_acc team rowsByTeam =
     (case rowsByTeam team of
        Some a \<Rightarrow> Some (Row team, rowsByTeam)
      | None \<Rightarrow>
          if team = ''__proto__'' then None
          else if inherited team then Some (Elsewhere, rowsByTeam)
          else Some (Row team, rowsByTeam(team \<mapsto> Map.empty)))"

text \<open>
  \<^verbatim>\<open>acc[name] = v\<close>. Under the name \<^verbatim>\<open>__proto__\<close> the assignment calls the
  inherited setter, which ignores a number. Any other name becomes an own property of the
  accumulator.
\<close>

definition store ::
  "string \<Rightarrow> jsnum \<Rightarrow> target \<Rightarrow> (string \<rightharpoonup> averages) \<Rightarrow> (string \<rightharpoonup> averages)" where
  "store n v tgt rowsByTeam =
     (if n = ''__proto__'' then rowsByTeam
      else
        (case tgt of
           Row team \<Rightarrow>
             (case rowsByTeam team of
                Some acc \<Rightarrow> rowsByTeam(team \<mapsto> acc(n \<mapsto> v))
              | None \<Rightarrow> rowsByTeam)
         | Elsewhere \<Rightarrow> rowsByTeam))"

text \<open>\<^verbatim>\<open>if (!name || !Number.isFinite(val)) return; acc[name] = val / gp;\<close>\<close>

definition add_stat ::
  "(string \<Rightarrow> jsnum) \<Rightarrow> (rat \<Rightarrow> nat \<Rightarrow> rat) \<Rightarrow> nat option \<Rightarrow> target \<Rightarrow> stat \<Rightarrow>
   (string \<rightharpoonup> averages) \<Rightarrow> (string \<rightharpoonup> averages)" where
  "add_stat p fdiv g tgt s rowsByTeam =
     (if \<not> truthy (stat_key s) then rowsByTeam
      else case stat_val p s of
             Fin v \<Rightarrow> store (toString (stat_key s)) (quotient fdiv v g) tgt rowsByTeam
           | _ \<Rightarrow> rowsByTeam)"

text \<open>The body of the loop over the stat rows.\<close>

definition add_row ::
  "(string \<Rightarrow> jsnum) \<Rightarrow> (rat \<Rightarrow> nat \<Rightarrow> rat) \<Rightarrow> (string \<rightharpoonup> nat) \<Rightarrow> string set \<Rightarrow>
   statRow \<Rightarrow> (string \<rightharpoonup> averages) \<Rightarrow> (string \<rightharpoonup> averages) option" where
  "add_row p fdiv cc fbs row rowsByTeam =
     (let team = team_of row; key = norm_name team in
      if key \<notin> fbs then Some rowsByTeam
      else
        case select_acc (toString team) rowsByTeam of
          None \<Rightarrow> None
        | Some (tgt, rowsByTeam1) \<Rightarrow>
            Some (fold (add_stat p fdiv (gp cc key) tgt) (stats_of row) rowsByTeam1))"

fun add_rows ::
  "(string \<Rightarrow> jsnum) \<Rightarrow> (rat \<Rightarrow> nat \<Rightarrow> rat) \<Rightarrow> (string \<rightharpoonup> nat) \<Rightarrow> string set \<Rightarrow>
   statRow list \<Rightarrow> (string \<rightharpoonup> averages) \<Rightarrow> (string \<rightharpoonup> averages) option" where
  "add_rows p fdiv cc fbs [] rowsByTeam = Some rowsByTeam"
| "add_rows p fdiv cc fbs (row # rs) rowsByTeam =
     (case add_row p fdiv cc fbs row rowsByTeam of
        None \<Rightarrow> None
      | Some rowsByTeam1 \<Rightarrow> add_rows p fdiv cc fbs rs rowsByTeam1)"

text \<open>
  The loop over the rows, started on an empty \<^verbatim>\<open>rowsByTeam\<close>; \<open>statsRows = None\<close> is
  a payload that is not an array. The result is the own properties of \<^verbatim>\<open>rowsByTeam\<close>.
\<close>

definition averageStats ::
  "(string \<Rightarrow> jsnum) \<Rightarrow> (rat \<Rightarrow> nat \<Rightarrow> rat) \<Rightarrow> statRow list option \<Rightarrow> (string \<rightharpoonup> nat) \<Rightarrow>
   string set \<Rightarrow> (string \<rightharpoonup> averages) option" where
  "averageStats p fdiv statsRows cc fbs =
     add_rows p fdiv cc fbs (case statsRows of Some rs \<Rightarrow> rs | None \<Rightarrow> []) Map.empty"

text \<open>\<^verbatim>\<open>rowsByTeam[team][n]\<close> for own properties, absent when the team or the name is.\<close>

definition average_at ::
  "(string \<rightharpoonup> averages) option \<Rightarrow> string \<Rightarrow> string \<Rightarrow> jsnum option" where
  "average_at R team n =
     (case R of
        None \<Rightarrow> None
      | Some rowsByTeam \<Rightarrow> (case rowsByTeam team of Some acc \<Rightarrow> acc n | None \<Rightarrow> None))"

section \<open>Poll ranking extractor\<close>

text \<open>
  An entry of the rankings payload holds a week number and a list of polls, a poll holds
  its name (the field \<^verbatim>\<open>poll\<close>) and its ranks. An element of \<^verbatim>\<open>polls\<close> may be
  \<^verbatim>\<open>null\<close> (\<open>None\<close>); \<open>ranks = None\<close> is a \<^verbatim>\<open>ranks\<close> field that is not an array.
  Weeks and ranks are integers.
\<close>

record rankEntry =
  rank :: int
  rank_school :: string

record namedPoll =
  poll :: "string option"
  ranks :: "rankEntry list option"

record weekEntry =
  week :: "int option"
  polls :: "namedPoll option list option"

record bucket =
  bucket_week :: int
  bucket_ap :: "rankEntry list"
  bucket_coaches :: "rankEntry list"

text \<open>\<^verbatim>\<open>const mode = String(req.query.mode || 'latest').toLowerCase();\<close>\<close>

definition mode_of :: "string option \<Rightarrow> string" where
  "mode_of q = toLowerCase (toString (or_else q (Some ''latest'')))"

text \<open>
  \<^verbatim>\<open>const isAP = (p) => p && p.poll === 'AP Top 25';\<close> and
  \<^verbatim>\<open>const isCoaches = (p) => p && p.poll === 'Coaches Poll';\<close>
\<close>

definition isAP :: "namedPoll option \<Rightarrow> bool" where
  "isAP p = (case p of None \<Rightarrow> False | Some q \<Rightarrow> poll q = Some ''AP Top 25'')"

definition isCoaches :: "namedPoll option \<Rightarrow> bool" where
  "isCoaches p = (case p of None \<Rightarrow> False | Some q \<Rightarrow> poll q = Some ''Coaches Poll'')"

text \<open>\<^verbatim>\<open>entry.week || 0\<close>\<close>

definition week_or0 :: "weekEntry \<Rightarrow> int" where
  "week_or0 e = (case week e of Some w \<Rightarrow> w | None \<Rightarrow> 0)"

text \<open>\<^verbatim>\<open>(entry.polls || []).find(P)\<close>; \<open>None\<close> is \<^verbatim>\<open>undefined\<close>, nothing found.\<close>

definition find_poll :: "(namedPoll option \<Rightarrow> bool) \<Rightarrow> weekEntry \<Rightarrow> namedPoll option" where
  "find_poll P e =
     (case List.find P (case polls e of Some ps \<Rightarrow> ps | None \<Rightarrow> []) of
        Some p \<Rightarrow> p
      | None \<Rightarrow> None)"

text \<open>
  \<^verbatim>\<open>if (ap && Array.isArray(ap.ranks)) bucket.ap = ap.ranks.slice().sort((x,y)=>x.rank-y.rank);\<close>
  and the empty list otherwise. \<^verbatim>\<open>Array.prototype.sort\<close> is stable and the comparator
  orders by an integer key, so the result is the stable sort by that key.
\<close>

definition sorted_ranks :: "namedPoll option \<Rightarrow> rankEntry list" where
  "sorted_ranks p =
     (case p of None \<Rightarrow> []
      | Some q \<Rightarrow> (case ranks q of Some rs \<Rightarrow> sort_key rank rs | None \<Rightarrow> []))"

definition bucket_of :: "weekEntry \<Rightarrow> bucket" where
  "bucket_of e = \<lparr> bucket_week = week_or0 e,
                   bucket_ap = sorted_ranks (find_poll isAP e),
                   bucket_coaches = sorted_ranks (find_poll isCoaches e) \<rparr>"

text \<open>An entry is tracked when the loop does not break at it: one of the two polls is there.\<close>

definition tracked :: "weekEntry \<Rightarrow> bool" where
  "tracked e = (\<not> (find_poll isAP e = None \<and> find_poll isCoaches e = None))"

text \<open>
  The \<^verbatim>\<open>for (const entry of sorted)\<close> loop on the state \<^verbatim>\<open>(weeks, latest)\<close>;
  \<^verbatim>\<open>break\<close> returns the state as it is.
\<close>

fun walk :: "weekEntry list \<Rightarrow> bucket list \<times> bucket option \<Rightarrow> bucket list \<times> bucket option" where
  "walk [] st = st"
| "walk (e # es) (weeks, latest) =
     (if find_poll isAP e = None \<and> find_poll isCoaches e = None then (weeks, latest)
      else walk es (weeks @ [bucket_of e], Some (bucket_of e)))"

text \<open>\<^verbatim>\<open>Array.isArray(rankings) ? rankings : []\<close>, sorted by \<^verbatim>\<open>(a.week||0) - (b.week||0)\<close>.\<close>

definition sorted_entries :: "weekEntry list option \<Rightarrow> weekEntry list" where
  "sorted_entries rankings = sort_key week_or0 (case rankings of Some es \<Rightarrow> es | None \<Rightarrow> [])"

definition collect :: "weekEntry list option \<Rightarrow> bucket list \<times> bucket option" where
  "collect rankings = walk (sorted_entries rankings) ([], None)"

text \<open>\<^verbatim>\<open>const renderWeeks = mode === 'all' ? weeks : (latest ? [latest] : []);\<close>\<close>

definition renderWeeks :: "string \<Rightarrow> weekEntry list option \<Rightarrow> bucket list" where
  "renderWeeks mode rankings =
     (case collect rankings of
        (weeks, latest) \<Rightarrow>
          if mode = ''all'' then weeks else (case latest of Some b \<Rightarrow> [b] | None \<Rightarrow> []))"

section \<open>Example data\<close>

text \<open>
  Concrete payloads on which the properties below are evaluated. \<open>ex_StringToNumber\<close>
  gives the value of the runtime's string conversion on the strings of the examples, and
  \<open>ex_fdiv\<close> is exact division, which is what the runtime computes whenever the exact
  quotient is a double. \<open>ex_counts\<close> are the completed-game counts of a season in which
  Miami has completed two games.
\<close>

definition ex_miami :: teamMeta where
  "ex_miami = \<lparr> school = Some ''Miami'', abbrev = Some ''MIA'', alternateNames = Some [''The U''],
     logos = Some [''miami.png'', ''miami-dark.png''], mascot = Some ''Hurricanes'' \<rparr>"

definition ex_tamu :: teamMeta where
  "ex_tamu = \<lparr> school = Some ''Texas A&M'', abbrev = Some ''TAMU'', alternateNames = None,
     logos = Some [], mascot = None \<rparr>"

definition ex_lsu :: teamMeta where
  "ex_lsu = \<lparr> school = Some ''Louisiana State'', abbrev = Some ''LSU'', alternateNames = None,
     logos = Some [''lsu.png''], mascot = None \<rparr>"

definition ex_foo :: teamMeta where
  "ex_foo = \<lparr> school = Some ''Foo'', abbrev = None, alternateNames = None,
     logos = Some [''a.png''], mascot = None \<rparr>"

definition ex_foo_upper :: teamMeta where
  "ex_foo_upper = \<lparr> school = Some ''FOO'', abbrev = None, alternateNames = None,
     logos = None, mascot = None \<rparr>"

definition ex_constructor :: teamMeta where
  "ex_constructor = \<lparr> school = Some ''constructor'', abbrev = None, alternateNames = None,
     logos = Some [''c.png''], mascot = None \<rparr>"

definition ex_no_school :: teamMeta where
  "ex_no_school = \<lparr> school = None, abbrev = Some ''XX'', alternateNames = None,
     logos = Some [''x.png''], mascot = None \<rparr>"






definition ex_StringToNumber :: "string \<Rightarrow> jsnum" where
  "ex_StringToNumber s = (if s = ''12.5'' then Fin (25 / 2) else NaN)"

definition ex_fdiv :: "rat \<Rightarrow> nat \<Rightarrow> rat" where
  "ex_fdiv x n = x / of_nat n"

definition ex_stat :: "string \<Rightarrow> jsval \<Rightarrow> stat" where
  "ex_stat n v = \<lparr> stat_statName = Some n, stat_category = None, stat_name = None,
                   stat_value = JUndefined, stat_stat = JUndefined, stat_statValue = v \<rparr>"

definition ex_stat_value :: "string \<Rightarrow> jsval \<Rightarrow> stat" where
  "ex_stat_value n v = \<lparr> stat_statName = Some n, stat_category = None, stat_name = None,
                         stat_value = v, stat_stat = JUndefined, stat_statValue = JUndefined \<rparr>"

definition ex_row_null :: statRow where
  "ex_row_null = \<lparr> row_team = Some ''Miami'', row_school = None, row_teamName = None,
     row_stats = Some [ex_stat ''sacks'' JNull, ex_stat_value ''tackles'' JNull,
                       ex_stat ''fumbles'' JUndefined, ex_stat ''punts'' (JStr ''n/a''),
                       ex_stat ''rushingYards'' (JNum (Fin 300))] \<rparr>"

definition ex_counts :: "string \<rightharpoonup> nat" where
  "ex_counts = Map.empty(''miami'' \<mapsto> 2)"

definition ex_ap :: namedPoll where
  "ex_ap = \<lparr> poll = Some ''AP Top 25'',
     ranks = Some [\<lparr> rank = 2, rank_school = ''Ohio State'' \<rparr>, \<lparr> rank = 1, rank_school = ''Georgia'' \<rparr>] \<rparr>"

definition ex_coaches :: namedPoll where
  "ex_coaches = \<lparr> poll = Some ''Coaches Poll'', ranks = Some [\<lparr> rank = 1, rank_school = ''Georgia'' \<rparr>] \<rparr>"

definition ex_fcs :: namedPoll where
  "ex_fcs = \<lparr> poll = Some ''FCS Coaches Poll'', ranks = Some [\<lparr> rank = 1, rank_school = ''Montana'' \<rparr>] \<rparr>"

definition ex_week1 :: weekEntry where
  "ex_week1 = \<lparr> week = Some 1, polls = Some [Some ex_fcs, Some ex_ap, Some ex_coaches] \<rparr>"

definition ex_week2 :: weekEntry where
  "ex_week2 = \<lparr> week = Some 2, polls = Some [Some ex_fcs] \<rparr>"

definition ex_week3 :: weekEntry where
  "ex_week3 = \<lparr> week = Some 3, polls = Some [Some ex_ap] \<rparr>"

section \<open>Properties of the name normalizer\<close>

lemma key_char_fixed: "is_key_char c \<Longrightarrow> lower_char c = c \<and> c \<noteq> CHR ''&''"
  by (auto simp: is_key_char_def lower_char_def is_upper_def Let_def)

lemma norm_key_chars: "\<forall>c\<in>set s. is_key_char c \<Longrightarrow> norm_name (Some s) = s"
proof (induction s)
  case Nil
  show ?case by (simp add: norm_name_def toLowerCase_def or_else_def)
next
  case (Cons c s)
  then have c: "lower_char c = c" "c \<noteq> CHR ''&''" "is_key_char c"
    using key_char_fixed[of c] by simp_all
  have "norm_name (Some (c # s)) = c # norm_name (Some s)"
    using c by (cases s) (simp_all add: norm_name_def toLowerCase_def or_else_def)
  with Cons show ?case by simp
qed

text \<open>
  C8. The name normalizer is idempotent: normalizing a normalized name gives the same name
  again, for every string and for an absent one.
\<close>

theorem norm_idempotent: "norm_name (Some (norm_name s)) = norm_name s"
  by (rule norm_key_chars) (simp add: norm_name_def)


section \<open>Properties of the logo resolver\<close>

lemma hit_string:
  "hit d (Some n) = Inr
     (case bySchool d (norm_name (Some n)) of
        Some e \<Rightarrow> Some e
      | None \<Rightarrow>
         (case byAlt d (norm_name (Some n)) of
            Some e \<Rightarrow> Some e
          | None \<Rightarrow>
             (case bySchool d (norm_name (Some (strip_parens n))) of
                Some e \<Rightarrow> Some e
              | None \<Rightarrow> byAbbr d (norm_name (Some n)))))"
  by (simp add: hit_def Let_def split: option.splits)

lemma inherited_proto: "inherited ''__proto__''"
  by (simp add: inherited_def object_prototype_members_def)

lemma props_set_logo_other: "k \<noteq> s \<Longrightarrow> props (set_logo k v obj) s = props obj s"
  by (simp add: set_logo_def split: option.splits)

lemma props_set_logo_same: "\<not> inherited s \<Longrightarrow> props (set_logo s v obj) s = Some v"
  using inherited_proto by (auto simp: set_logo_def)

lemma add_school_keeps_logo:
  "has_logo (props obj s) \<Longrightarrow> props (add_school t obj) s = props obj s"
proof (cases "toString (school t) = s")
  case True
  assume "has_logo (props obj s)"
  then have "logo_truthy obj s" by (cases "props obj s") (simp_all add: logo_truthy_def)
  with True show ?thesis by (simp add: add_school_def)
next
  case False
  then show ?thesis by (simp add: add_school_def props_set_logo_other)
qed

lemma add_school_other: "school t \<noteq> Some s \<Longrightarrow> props (add_school t obj) s = props obj s"
proof (cases "school t")
  case None
  then show ?thesis by (simp add: add_school_def)
next
  case (Some k)
  assume "school t \<noteq> Some s"
  with Some have "k \<noteq> s" by simp
  with Some show ?thesis by (simp add: add_school_def props_set_logo_other)
qed

lemma add_school_sets:
  assumes "\<not> inherited s" "school t = Some s" "s \<noteq> []" "\<not> has_logo (props obj s)"
  shows "props (add_school t obj) s = Some (primaryLogo t)"
proof -
  have "\<not> logo_truthy obj s"
    using assms(1,4) by (cases "props obj s") (simp_all add: logo_truthy_def)
  then show ?thesis
    using assms(1,2,3) by (simp add: add_school_def props_set_logo_same)
qed

lemma supplementary_keeps_logo:
  "has_logo (props obj s) \<Longrightarrow> props (supplementary ts obj) s = props obj s"
  unfolding supplementary_def
  by (induction ts arbitrary: obj) (simp_all add: add_school_keeps_logo)

lemma supplementary_other:
  "\<forall>t\<in>set ts. school t \<noteq> Some s \<Longrightarrow> props (supplementary ts obj) s = props obj s"
  unfolding supplementary_def
  by (induction ts arbitrary: obj) (simp_all add: add_school_other)

lemma supplementary_sets:
  "\<forall>t\<in>set ts. school t = Some s \<longrightarrow> primaryLogo t = l \<Longrightarrow> s \<noteq> [] \<Longrightarrow> \<not> inherited s \<Longrightarrow>
   props obj s = Some l \<or> (\<not> has_logo (props obj s) \<and> (\<exists>t\<in>set ts. school t = Some s)) \<Longrightarrow>
   props (supplementary ts obj) s = Some l"
  unfolding supplementary_def
proof (induction ts arbitrary: obj)
  case Nil
  then show ?case by simp
next
  case (Cons t ts)
  have all: "\<forall>t\<in>set ts. school t = Some s \<longrightarrow> primaryLogo t = l"
    using Cons.prems(1) by simp
  show ?case
  proof (cases "school t = Some s")
    case True
    then have l: "primaryLogo t = l" using Cons.prems(1) by simp
    have "props (add_school t obj) s = Some l"
    proof (cases "has_logo (props obj s)")
      case hl: True
      then have "props obj s = Some l" using Cons.prems(4) by blast
      then show ?thesis using hl by (simp add: add_school_keeps_logo)
    next
      case False
      then show ?thesis
        using add_school_sets[OF Cons.prems(3) True Cons.prems(2)] l by simp
    qed
    then have "props (fold add_school ts (add_school t obj)) s = Some l"
      using Cons.IH[OF all Cons.prems(2,3), of "add_school t obj"] by simp
    then show ?thesis by simp
  next
    case False
    then have same: "props (add_school t obj) s = props obj s" by (rule add_school_other)
    have "props (add_school t obj) s = Some l \<or>
          (\<not> has_logo (props (add_school t obj) s) \<and> (\<exists>t\<in>set ts. school t = Some s))"
      using Cons.prems(4) False same by auto
    then have "props (fold add_school ts (add_school t obj)) s = Some l"
      by (rule Cons.IH[OF all Cons.prems(2,3)])
    then show ?thesis by simp
  qed
qed

text \<open>
  C4. For a team name and a directory the resolver tries four lookups in a fixed order: the
  normalized name in the school index, the normalized name in the alternate-name index, the
  normalized name without its parenthesized parts in the school index, the normalized name
  in the abbreviation index. The hit is the result of the first lookup that finds an entry,
  there is no hit when all four miss, and the result is the logo of the hit: its primary
  logo when it has one, \<^verbatim>\<open>null\<close> when it has none or when there is no hit.
\<close>

theorem resolver_fallback_order:
  "(bySchool d (norm_name (Some n)) = Some e \<longrightarrow> hit d (Some n) = Inr (Some e)) \<and>
   (bySchool d (norm_name (Some n)) = None \<and> byAlt d (norm_name (Some n)) = Some e
      \<longrightarrow> hit d (Some n) = Inr (Some e)) \<and>
   (bySchool d (norm_name (Some n)) = None \<and> byAlt d (norm_name (Some n)) = None \<and>
    bySchool d (norm_name (Some (strip_parens n))) = Some e
      \<longrightarrow> hit d (Some n) = Inr (Some e)) \<and>
   (bySchool d (norm_name (Some n)) = None \<and> byAlt d (norm_name (Some n)) = None \<and>
    bySchool d (norm_name (Some (strip_parens n))) = None
      \<longrightarrow> hit d (Some n) = Inr (byAbbr d (norm_name (Some n)))) \<and>
   (hit d (Some n) = Inr (Some e) \<and> truthy (entry_logo e)
      \<longrightarrow> resolveLogo d (Some n) = Inr (entry_logo e)) \<and>
   (hit d (Some n) = Inr (Some e) \<and> \<not> truthy (entry_logo e)
      \<longrightarrow> resolveLogo d (Some n) = Inr None) \<and>
   (hit d (Some n) = Inr None \<longrightarrow> resolveLogo d (Some n) = Inr None)"
  by (simp add: hit_string resolveLogo_def logo_of_hit_def)

text \<open>
  Names against the directory of Miami, Texas A&M and Louisiana State: one for each
  lookup, each returning the logo of the team found, one found by its abbreviation whose
  team has no logo, one that no lookup finds, one found by an alternate name, and one
  found by its school name, written with the ampersand spelled out, whose team has no logo.
\<close>

theorem resolver_fallback_order_witness:
  "resolveLogo (build_directory [ex_miami, ex_tamu, ex_lsu]) (Some ''MIAMI'') = Inr (Some ''miami.png'') \<and>
   resolveLogo (build_directory [ex_miami, ex_tamu, ex_lsu]) (Some ''Miami Hurricanes'') = Inr (Some ''miami.png'') \<and>
   resolveLogo (build_directory [ex_miami, ex_tamu, ex_lsu]) (Some ''Miami (FL)'') = Inr (Some ''miami.png'') \<and>
   resolveLogo (build_directory [ex_miami, ex_tamu, ex_lsu]) (Some ''lsu'') = Inr (Some ''lsu.png'') \<and>
   resolveLogo (build_directory [ex_miami, ex_tamu, ex_lsu]) (Some ''tamu'') = Inr None \<and>
   resolveLogo (build_directory [ex_miami, ex_tamu, ex_lsu]) (Some ''Nowhere State'') = Inr None \<and>
   resolveLogo (build_directory [ex_miami, ex_tamu, ex_lsu]) (Some ''the u'') = Inr (Some ''miami.png'') \<and>
   resolveLogo (build_directory [ex_miami, ex_tamu, ex_lsu]) (Some ''Texas A and M'') = Inr None"
proof -
  let ?d = "build_directory [ex_miami, ex_tamu, ex_lsu]"
  have logos: "truthy (entry_logo (mk_entry ex_miami)) \<and> entry_logo (mk_entry ex_miami) = Some ''miami.png'' \<and>
               truthy (entry_logo (mk_entry ex_lsu)) \<and> entry_logo (mk_entry ex_lsu) = Some ''lsu.png'' \<and>
               \<not> truthy (entry_logo (mk_entry ex_tamu))"
    by code_simp
  have a: "bySchool ?d (norm_name (Some ''MIAMI'')) = Some (mk_entry ex_miami)"
    by code_simp
  have b: "bySchool ?d (norm_name (Some ''Miami Hurricanes'')) = None \<and>
           byAlt ?d (norm_name (Some ''Miami Hurricanes'')) = Some (mk_entry ex_miami)"
    by code_simp
  have c: "bySchool ?d (norm_name (Some ''Miami (FL)'')) = None \<and>
           byAlt ?d (norm_name (Some ''Miami (FL)'')) = None \<and>
           bySchool ?d (norm_name (Some (strip_parens ''Miami (FL)''))) = Some (mk_entry ex_miami)"
    by code_simp
  have d: "bySchool ?d (norm_name (Some ''lsu'')) = None \<and>
           byAlt ?d (norm_name (Some ''lsu'')) = None \<and>
           bySchool ?d (norm_name (Some (strip_parens ''lsu''))) = None \<and>
           byAbbr ?d (norm_name (Some ''lsu'')) = Some (mk_entry ex_lsu)"
    by code_simp
  have e: "bySchool ?d (norm_name (Some ''tamu'')) = None \<and>
           byAlt ?d (norm_name (Some ''tamu'')) = None \<and>
           bySchool ?d (norm_name (Some (strip_parens ''tamu''))) = None \<and>
           byAbbr ?d (norm_name (Some ''tamu'')) = Some (mk_entry ex_tamu)"
    by code_simp
  have f: "bySchool ?d (norm_name (Some ''Nowhere State'')) = None \<and>
           byAlt ?d (norm_name (Some ''Nowhere State'')) = None \<and>
           bySchool ?d (norm_name (Some (strip_parens ''Nowhere State''))) = None \<and>
           byAbbr ?d (norm_name (Some ''Nowhere State'')) = None"
    by code_simp
  have g: "bySchool ?d (norm_name (Some ''the u'')) = None \<and>
           byAlt ?d (norm_name (Some ''the u'')) = Some (mk_entry ex_miami)"
    by code_simp
  have h: "bySchool ?d (norm_name (Some ''Texas A and M'')) = Some (mk_entry ex_tamu)"
    by code_simp
  have 1: "resolveLogo ?d (Some ''MIAMI'') = Inr (Some ''miami.png'')"
    using a logos resolver_fallback_order[of ?d "''MIAMI''" "mk_entry ex_miami"] by metis
  have 2: "resolveLogo ?d (Some ''Miami Hurricanes'') = Inr (Some ''miami.png'')"
    using b logos resolver_fallback_order[of ?d "''Miami Hurricanes''" "mk_entry ex_miami"] by metis
  have 3: "resolveLogo ?d (Some ''Miami (FL)'') = Inr (Some ''miami.png'')"
    using c logos resolver_fallback_order[of ?d "''Miami (FL)''" "mk_entry ex_miami"] by metis
  have 4: "resolveLogo ?d (Some ''lsu'') = Inr (Some ''lsu.png'')"
    using d logos resolver_fallback_order[of ?d "''lsu''" "mk_entry ex_lsu"] by metis
  have 5: "resolveLogo ?d (Some ''tamu'') = Inr None"
    using e logos resolver_fallback_order[of ?d "''tamu''" "mk_entry ex_tamu"] by metis
  have 6: "resolveLogo ?d (Some ''Nowhere State'') = Inr None"
    using f resolver_fallback_order[of ?d "''Nowhere State''" "mk_entry ex_tamu"] by metis
  have 7: "resolveLogo ?d (Some ''the u'') = Inr (Some ''miami.png'')"
    using g logos resolver_fallback_order[of ?d "''the u''" "mk_entry ex_miami"] by metis
  have 8: "resolveLogo ?d (Some ''Texas A and M'') = Inr None"
    using h logos resolver_fallback_order[of ?d "''Texas A and M''" "mk_entry ex_tamu"] by metis
  from 1 2 3 4 5 6 7 8 show ?thesis by blast
qed

text \<open>
  C5, as stated, fails. Two teams whose school names normalize to the same key, the later
  one without a logo: the name Foo resolves to \<^verbatim>\<open>null\<close>, so its entry exists after the
  resolution, and the supplementary pass replaces that entry with the logo of the team Foo.
  And a school named constructor, which has no entry, gets none: the read finds the
  inherited member.
\<close>

theorem supplementary_overwrites_null_counterexample:
  "resolve_names (build_directory [ex_foo, ex_foo_upper]) [Some ''Foo''] empty_object
     = Inr \<lparr> props = Map.empty(''Foo'' \<mapsto> None), has_prototype = True \<rparr> \<and>
   props (supplementary [ex_foo, ex_foo_upper]
            \<lparr> props = Map.empty(''Foo'' \<mapsto> None), has_prototype = True \<rparr>) ''Foo''
     = Some (Some ''a.png'') \<and>
   props empty_object ''constructor'' = None \<and>
   props (supplementary [ex_constructor] empty_object) ''constructor'' = None"
proof -
  have a: "resolveLogo (build_directory [ex_foo, ex_foo_upper]) (Some ''Foo'') = Inr None"
    by code_simp
  have 1: "resolve_names (build_directory [ex_foo, ex_foo_upper]) [Some ''Foo''] empty_object
     = Inr \<lparr> props = Map.empty(''Foo'' \<mapsto> None), has_prototype = True \<rparr>"
    using a by (simp add: set_logo_def empty_object_def)
  have 2: "props (supplementary [ex_foo, ex_foo_upper]
            \<lparr> props = Map.empty(''Foo'' \<mapsto> None), has_prototype = True \<rparr>) ''Foo''
     = Some (Some ''a.png'')"
    by code_simp
  have 3: "props empty_object ''constructor'' = None \<and>
           props (supplementary [ex_constructor] empty_object) ''constructor'' = None"
    by code_simp
  from 1 2 3 show ?thesis by blast
qed

text \<open>
  C5, amended. A key whose entry holds a logo is left unchanged by the supplementary pass,
  and so is a key that is no team's school name. A non-empty school name that is not the
  name of a member of \<^verbatim>\<open>Object.prototype\<close> and whose entry is absent, \<^verbatim>\<open>null\<close> or
  empty is set to the primary logo of its team, all teams of that school name having the
  same primary logo.
\<close>

theorem supplementary_pass:
  "(has_logo (props obj s) \<longrightarrow> props (supplementary teamsMeta obj) s = props obj s) \<and>
   (\<not> inherited s \<and> \<not> has_logo (props obj s) \<and> s \<noteq> [] \<and> t \<in> set teamsMeta \<and>
    school t = Some s \<and>
    (\<forall>u\<in>set teamsMeta. school u = Some s \<longrightarrow> primaryLogo u = primaryLogo t)
      \<longrightarrow> props (supplementary teamsMeta obj) s = Some (primaryLogo t)) \<and>
   ((\<forall>u\<in>set teamsMeta. school u \<noteq> Some s) \<longrightarrow> props (supplementary teamsMeta obj) s = props obj s)"
proof -
  have 1: "has_logo (props obj s) \<longrightarrow> props (supplementary teamsMeta obj) s = props obj s"
    by (simp add: supplementary_keeps_logo)
  have 2: "\<not> inherited s \<and> \<not> has_logo (props obj s) \<and> s \<noteq> [] \<and> t \<in> set teamsMeta \<and>
    school t = Some s \<and>
    (\<forall>u\<in>set teamsMeta. school u = Some s \<longrightarrow> primaryLogo u = primaryLogo t)
      \<longrightarrow> props (supplementary teamsMeta obj) s = Some (primaryLogo t)"
  proof
    assume h: "\<not> inherited s \<and> \<not> has_logo (props obj s) \<and> s \<noteq> [] \<and> t \<in> set teamsMeta \<and>
      school t = Some s \<and>
      (\<forall>u\<in>set teamsMeta. school u = Some s \<longrightarrow> primaryLogo u = primaryLogo t)"
    then have "props obj s = Some (primaryLogo t) \<or>
               (\<not> has_logo (props obj s) \<and> (\<exists>u\<in>set teamsMeta. school u = Some s))"
      by blast
    with h show "props (supplementary teamsMeta obj) s = Some (primaryLogo t)"
      using supplementary_sets[of teamsMeta s "primaryLogo t" obj] by blast
  qed
  have 3: "(\<forall>u\<in>set teamsMeta. school u \<noteq> Some s) \<longrightarrow> props (supplementary teamsMeta obj) s = props obj s"
    by (simp add: supplementary_other)
  from 1 2 3 show ?thesis by blast
qed

text \<open>
  An entry with a logo is kept, an absent entry and a \<^verbatim>\<open>null\<close> entry of a school name
  are both set to the school's logo, and a key that is no school name stays absent.
\<close>

theorem supplementary_pass_witness:
  "props (supplementary [ex_miami, ex_tamu]
            \<lparr> props = Map.empty(''Miami'' \<mapsto> Some ''m.png''), has_prototype = True \<rparr>) ''Miami''
     = Some (Some ''m.png'') \<and>
   props (supplementary [ex_miami, ex_tamu] empty_object) ''Miami'' = Some (Some ''miami.png'') \<and>
   props (supplementary [ex_miami, ex_tamu]
            \<lparr> props = Map.empty(''Miami'' \<mapsto> None), has_prototype = True \<rparr>) ''Miami''
     = Some (Some ''miami.png'') \<and>
   props (supplementary [ex_miami, ex_tamu] empty_object) ''Rice'' = None"
proof -
  let ?ts = "[ex_miami, ex_tamu]"
  let ?o1 = "\<lparr> props = Map.empty(''Miami'' \<mapsto> Some ''m.png''), has_prototype = True \<rparr>"
  let ?o2 = "\<lparr> props = Map.empty(''Miami'' \<mapsto> None), has_prototype = True \<rparr>"
  have a: "has_logo (props ?o1 ''Miami'')"
    by simp
  have b: "\<not> inherited ''Miami'' \<and> ''Miami'' \<noteq> [] \<and> ex_miami \<in> set ?ts \<and>
    school ex_miami = Some ''Miami'' \<and>
    (\<forall>u\<in>set ?ts. school u = Some ''Miami'' \<longrightarrow> primaryLogo u = primaryLogo ex_miami)"
    by (simp add: ex_miami_def ex_tamu_def inherited_def object_prototype_members_def)
  have c: "primaryLogo ex_miami = Some ''miami.png''"
    by (simp add: ex_miami_def primaryLogo_def)
  have d: "\<forall>u\<in>set ?ts. school u \<noteq> Some ''Rice''"
    by (simp add: ex_miami_def ex_tamu_def)
  have e: "\<not> has_logo (props empty_object ''Miami'') \<and> \<not> has_logo (props ?o2 ''Miami'') \<and>
           props empty_object ''Rice'' = None"
    by (simp add: empty_object_def)
  have 1: "props (supplementary ?ts ?o1) ''Miami'' = Some (Some ''m.png'')"
    using a supplementary_pass[of ?o1 "''Miami''" ?ts] by simp
  have 2: "props (supplementary ?ts empty_object) ''Miami'' = Some (Some ''miami.png'')"
    using b c e supplementary_pass[of empty_object "''Miami''" ?ts ex_miami] by simp
  have 3: "props (supplementary ?ts ?o2) ''Miami'' = Some (Some ''miami.png'')"
    using b c e supplementary_pass[of ?o2 "''Miami''" ?ts ex_miami] by simp
  have 4: "props (supplementary ?ts empty_object) ''Rice'' = None"
    using d e supplementary_pass[of empty_object "''Rice''" ?ts] by simp
  from 1 2 3 4 show ?thesis by blast
qed

text \<open>
  C6 fails on the code. The handlers of \<^verbatim>\<open>/projections\<close> and \<^verbatim>\<open>/stats\<close> pass
  \<^verbatim>\<open>teamsMeta.map(t => t.school)\<close> as the names; for a team without a school the name is
  \<^verbatim>\<open>undefined\<close>, both first lookups miss, and \<^verbatim>\<open>name.replace\<close> throws: no map is
  returned, also when the names before it resolved. And the name \<^verbatim>\<open>__proto__\<close> is
  not a key of the returned map.
\<close>

theorem undefined_name_throws:
  "map school [ex_no_school] = [None] \<and>
   buildTeamLogosMap (map school [ex_no_school]) [ex_no_school] = Inl TypeError \<and>
   buildTeamLogosMap [Some ''Miami'', None] [ex_miami] = Inl TypeError \<and>
   logo_at (buildTeamLogosMap [Some ''__proto__''] [ex_miami]) ''__proto__'' = None \<and>
   logo_at (buildTeamLogosMap [Some ''__proto__''] [ex_miami]) ''Miami'' = Some (Some ''miami.png'')"
proof -
  have 1: "map school [ex_no_school] = [None]"
    by (simp add: ex_no_school_def)
  have a: "resolveLogo (build_directory [ex_no_school]) None = Inl TypeError"
    by code_simp
  have "buildTeamLogosMap [None] [ex_no_school] = Inl TypeError"
    using a by (simp add: buildTeamLogosMap_def)
  then have 2: "buildTeamLogosMap (map school [ex_no_school]) [ex_no_school] = Inl TypeError"
    by (simp only: 1)
  have b: "resolveLogo (build_directory [ex_miami]) None = Inl TypeError \<and>
           resolveLogo (build_directory [ex_miami]) (Some ''Miami'') = Inr (Some ''miami.png'')"
    by code_simp
  have 3: "buildTeamLogosMap [Some ''Miami'', None] [ex_miami] = Inl TypeError"
    using b by (simp add: buildTeamLogosMap_def)
  have 4: "logo_at (buildTeamLogosMap [Some ''__proto__''] [ex_miami]) ''__proto__'' = None \<and>
   logo_at (buildTeamLogosMap [Some ''__proto__''] [ex_miami]) ''Miami'' = Some (Some ''miami.png'')"
    by code_simp
  from 1 2 3 4 show ?thesis by blast
qed

section \<open>Properties of the record aggregator\<close>













































section \<open>Properties of the statistics averager\<close>

text \<open>
  C3 fails on the code. The row of Miami, a team of the FBS set with two completed games, has
  five entries. The entry \<^verbatim>\<open>{ statName: "sacks", statValue: null }\<close> has no number, and
  it is not skipped: \<^verbatim>\<open>Number(null)\<close> is 0, which passes the finiteness guard, and 0 is
  reported. The same \<^verbatim>\<open>null\<close> under \<^verbatim>\<open>value\<close> is skipped, as are an absent value
  and a string that is no number; the guard of the games loops rejects \<^verbatim>\<open>null\<close>. The
  300 rushing yards are reported as 150.
\<close>

theorem null_stat_stored:
  "stat_val ex_StringToNumber (ex_stat ''sacks'' JNull) = Fin 0 \<and>
   average_at (averageStats ex_StringToNumber ex_fdiv (Some [ex_row_null]) ex_counts
                 (fbsSet [ex_miami, ex_tamu])) ''Miami'' ''sacks'' = Some (Fin 0) \<and>
   average_at (averageStats ex_StringToNumber ex_fdiv (Some [ex_row_null]) ex_counts
                 (fbsSet [ex_miami, ex_tamu])) ''Miami'' ''tackles'' = None \<and>
   average_at (averageStats ex_StringToNumber ex_fdiv (Some [ex_row_null]) ex_counts
                 (fbsSet [ex_miami, ex_tamu])) ''Miami'' ''fumbles'' = None \<and>
   average_at (averageStats ex_StringToNumber ex_fdiv (Some [ex_row_null]) ex_counts
                 (fbsSet [ex_miami, ex_tamu])) ''Miami'' ''punts'' = None \<and>
   average_at (averageStats ex_StringToNumber ex_fdiv (Some [ex_row_null]) ex_counts
                 (fbsSet [ex_miami, ex_tamu])) ''Miami'' ''rushingYards'' = Some (Fin 150) \<and>
   isFinite JNull = False"
  by code_simp

section \<open>Properties of the poll extractor\<close>

lemma walk_takeWhile:
  "walk es (ws, l) =
     (ws @ map bucket_of (takeWhile tracked es),
      if takeWhile tracked es = [] then l else Some (bucket_of (last (takeWhile tracked es))))"
proof (induction es arbitrary: ws l)
  case Nil
  show ?case by simp
next
  case (Cons e es)
  show ?case
  proof (cases "tracked e")
    case False
    then show ?thesis by (simp add: tracked_def)
  next
    case True
    then have "walk (e # es) (ws, l) = walk es (ws @ [bucket_of e], Some (bucket_of e))"
      by (auto simp: tracked_def)
    then show ?thesis using True Cons.IH[of "ws @ [bucket_of e]" "Some (bucket_of e)"]
      by simp
  qed
qed

lemma collect_takeWhile:
  "collect r =
     (map bucket_of (takeWhile tracked (sorted_entries r)),
      if takeWhile tracked (sorted_entries r) = [] then None
      else Some (bucket_of (last (takeWhile tracked (sorted_entries r)))))"
  by (simp add: collect_def walk_takeWhile)

lemma renderWeeks_all: "renderWeeks ''all'' r = fst (collect r)"
  by (simp add: renderWeeks_def split: prod.splits)

lemma renderWeeks_other:
  "mode \<noteq> ''all'' \<Longrightarrow>
   renderWeeks mode r = (if fst (collect r) = [] then [] else [last (fst (collect r))])"
  by (simp add: renderWeeks_def collect_takeWhile last_map)

lemma sorted_weeks_collect: "sorted (map bucket_week (fst (collect r)))"
proof -
  let ?s = "sorted_entries r"
  have "sorted (map week_or0 ?s)" by (simp add: sorted_entries_def)
  then have "sorted (map week_or0 (takeWhile tracked ?s @ dropWhile tracked ?s))" by simp
  then have 1: "sorted (map week_or0 (takeWhile tracked ?s))"
    unfolding map_append sorted_append by blast
  have 2: "map bucket_week (map bucket_of (takeWhile tracked ?s)) = map week_or0 (takeWhile tracked ?s)"
    by (simp add: bucket_of_def)
  have 3: "fst (collect r) = map bucket_of (takeWhile tracked ?s)"
    by (simp add: collect_takeWhile)
  show ?thesis unfolding 3 2 by (rule 1)
qed

lemma takeWhile_stop:
  "xs = pre @ e # post \<Longrightarrow> \<forall>x\<in>set pre. P x \<Longrightarrow> \<not> P e \<Longrightarrow> takeWhile P xs = pre"
  by (simp add: takeWhile_append2)

lemma mode_latest: "mode_of (Some ''latest'') = ''latest''"
  by (simp add: mode_of_def or_else_def toLowerCase_def lower_char_def is_upper_def)

text \<open>
  C2. The poll extractor walks the entries in ascending week order, a missing week number
  counting as 0, and stops at the first entry in which both the AP Top 25 and the Coaches
  Poll are absent: in mode all the output is the buckets of the entries before that one, and
  no entry at or after it contributes. With week 1 holding both polls, week 2 neither and
  week 3 the AP poll, the output is the bucket of week 1 alone.
\<close>

theorem renderWeeks_stops_at_first_gap:
  "sorted (map week_or0 (sorted_entries r)) \<and>
   mset (sorted_entries r) = mset (case r of Some es \<Rightarrow> es | None \<Rightarrow> []) \<and>
   renderWeeks ''all'' r = map bucket_of (takeWhile tracked (sorted_entries r)) \<and>
   (sorted_entries r = pre @ e # post \<and> (\<forall>x\<in>set pre. tracked x) \<and> \<not> tracked e
      \<longrightarrow> renderWeeks ''all'' r = map bucket_of pre) \<and>
   renderWeeks ''all'' (Some [ex_week3, ex_week1, ex_week2]) = [bucket_of ex_week1]"
proof -
  have 1: "sorted (map week_or0 (sorted_entries r))"
    by (simp add: sorted_entries_def)
  have 2: "mset (sorted_entries r) = mset (case r of Some es \<Rightarrow> es | None \<Rightarrow> [])"
    by (simp add: sorted_entries_def)
  have 3: "renderWeeks ''all'' r = map bucket_of (takeWhile tracked (sorted_entries r))"
    by (simp add: renderWeeks_all collect_takeWhile)
  have 4: "sorted_entries r = pre @ e # post \<and> (\<forall>x\<in>set pre. tracked x) \<and> \<not> tracked e
      \<longrightarrow> renderWeeks ''all'' r = map bucket_of pre"
    using 3 takeWhile_stop[of "sorted_entries r" pre e post tracked] by auto
  have 5: "renderWeeks ''all'' (Some [ex_week3, ex_week1, ex_week2]) = [bucket_of ex_week1]"
    by code_simp
  from 1 2 3 4 5 show ?thesis by blast
qed

text \<open>
  The example again, through the general statement: sorted, the three entries are week 1,
  week 2, week 3, and week 2 is the first entry that is not tracked.
\<close>

theorem renderWeeks_stops_at_first_gap_witness:
  "sorted_entries (Some [ex_week3, ex_week1, ex_week2]) = [ex_week1] @ ex_week2 # [ex_week3] \<and>
   tracked ex_week1 \<and> \<not> tracked ex_week2 \<and>
   renderWeeks ''all'' (Some [ex_week3, ex_week1, ex_week2]) = map bucket_of [ex_week1]"
proof -
  have a: "sorted_entries (Some [ex_week3, ex_week1, ex_week2]) = [ex_week1] @ ex_week2 # [ex_week3]"
    by code_simp
  have b: "tracked ex_week1"
    by code_simp
  have c: "\<not> tracked ex_week2"
    by code_simp
  show ?thesis
    using a b c
      renderWeeks_stops_at_first_gap[of "Some [ex_week3, ex_week1, ex_week2]" "[ex_week1]" ex_week2
        "[ex_week3]"]
    by simp
qed

text \<open>
  C7. In mode latest the output is the one-element list of the last bucket collected before
  the loop stopped, or the empty list when none was collected; in mode all it is the list of
  all collected buckets, in ascending week order. On the example of C2, mode latest gives the
  bucket of week 1.
\<close>

theorem renderWeeks_modes:
  "renderWeeks ''latest'' r = (if fst (collect r) = [] then [] else [last (fst (collect r))]) \<and>
   renderWeeks ''all'' r = fst (collect r) \<and>
   sorted (map bucket_week (renderWeeks ''all'' r)) \<and>
   renderWeeks ''latest'' (Some [ex_week3, ex_week1, ex_week2]) = [bucket_of ex_week1]"
proof -
  have 1: "renderWeeks ''latest'' r = (if fst (collect r) = [] then [] else [last (fst (collect r))])"
    by (rule renderWeeks_other) simp
  have 2: "renderWeeks ''all'' r = fst (collect r)"
    by (rule renderWeeks_all)
  have 3: "sorted (map bucket_week (renderWeeks ''all'' r))"
    unfolding 2 by (rule sorted_weeks_collect)
  have 4: "renderWeeks ''latest'' (Some [ex_week3, ex_week1, ex_week2]) = [bucket_of ex_week1]"
    by code_simp
  from 1 2 3 4 show ?thesis by blast
qed

text \<open>Without the empty week 2 the last collected bucket is that of week 3.\<close>

theorem renderWeeks_modes_witness:
  "renderWeeks ''latest'' (Some [ex_week3, ex_week1]) = [bucket_of ex_week3] \<and>
   renderWeeks ''all'' (Some [ex_week3, ex_week1]) = [bucket_of ex_week1, bucket_of ex_week3] \<and>
   renderWeeks ''latest'' None = []"
proof -
  have a: "fst (collect (Some [ex_week3, ex_week1])) = [bucket_of ex_week1, bucket_of ex_week3]"
    by code_simp
  have b: "fst (collect None) = []"
    by code_simp
  show ?thesis
    using a b renderWeeks_modes[of "Some [ex_week3, ex_week1]"] renderWeeks_modes[of None]
    by simp
qed

text \<open>
  C10. For every mode whose lowercased form is not all, the default of an absent or empty
  mode included, the poll extractor behaves as in mode latest: the output is the one-element
  list of the last collected bucket, or the empty list when there is none.
\<close>

theorem renderWeeks_default_mode:
  "mode_of q \<noteq> ''all'' \<Longrightarrow>
   renderWeeks (mode_of q) r = renderWeeks (mode_of (Some ''latest'')) r \<and>
   renderWeeks (mode_of q) r = (if fst (collect r) = [] then [] else [last (fst (collect r))])"
  by (simp add: renderWeeks_other mode_latest)

text \<open>The mode Weekly, which is neither of the two documented ones, on the example of C2.\<close>

theorem renderWeeks_default_mode_witness:
  "mode_of (Some ''Weekly'') \<noteq> ''all'' \<and>
   renderWeeks (mode_of (Some ''Weekly'')) (Some [ex_week3, ex_week1, ex_week2])
     = renderWeeks (mode_of (Some ''latest'')) (Some [ex_week3, ex_week1, ex_week2])"
proof -
  have a: "mode_of (Some ''Weekly'') \<noteq> ''all''"
    by code_simp
  show ?thesis
    using a renderWeeks_default_mode[OF a, of "Some [ex_week3, ex_week1, ex_week2]"] by blast
qed

end
